theory Spec2Isabelle
  imports Complex_Main "HOL-Library.Multiset" "HOL-Library.Signed_Division"
begin

section \<open>Data model of the wishlist savings planner\<close>

text \<open>
  The planner (\<^verbatim>\<open>streamlit_app.py\<close>) keeps one JSON document with a profile, a wishlist
  and a transaction log. Python's unbounded integers are \<open>int\<close>. A dictionary key that the
  code reads with \<^verbatim>\<open>.get(key, default)\<close> is an optional field (\<open>None\<close>: the key is absent);
  a key that the allocation code reads with \<^verbatim>\<open>item[key]\<close> is a plain field. Each wishlist
  item carries \<^verbatim>\<open>id, name, target, months, current, priority, created\<close>.
  The three percentage entries of the default profile are never read and are left out.
\<close>

record profile =
  income :: int
  fixed_expenses :: int
  saving_invest :: int
  emergency :: int

record item =
  item_id :: int
  item_name :: string
  target :: int
  months :: "int option"
  current :: "int option"
  priority :: "int option"
  created :: string

text \<open>One row of the allocation preview: \<^verbatim>\<open>{"id", "name", "assigned", "need"}\<close>.\<close>

record alloc_rec =
  alloc_id :: int
  alloc_name :: string
  assigned :: int
  need :: int

text \<open>
  A transaction is tagged by its \<^verbatim>\<open>"type"\<close>: \<^verbatim>\<open>monthly_alloc\<close> carries the timestamp and
  the allocation list, \<^verbatim>\<open>manual_deposit\<close> the timestamp, amount, item id and memo.
\<close>

datatype transaction =
  Monthly_alloc string "alloc_rec list"
| Manual_deposit string int int string

record app_data =
  profile :: profile
  wishlist :: "item list"
  transactions :: "transaction list"

definition default_data :: app_data where
  "default_data =
     \<lparr>profile = \<lparr>income = 0, fixed_expenses = 0, saving_invest = 0, emergency = 0\<rparr>,
      wishlist = [], transactions = []\<rparr>"

section \<open>Core calculations\<close>

text \<open>
  \<^verbatim>\<open>
  def calculate_usable(profile):
      ...
      usable = income - (fixed + saving + emergency)
      return max(0, usable)
  \<close>
\<close>

definition calculate_usable :: "profile \<Rightarrow> int" where
  "calculate_usable p =
     (let usable = income p - (fixed_expenses p + saving_invest p + emergency p)
      in max 0 usable)"

text \<open>
  Python's \<^verbatim>\<open>int(x)\<close> on a number drops the fractional part (rounds toward zero).
\<close>

definition py_int :: "rat \<Rightarrow> int" where
  "py_int x = (if 0 \<le> x then \<lfloor>x\<rfloor> else \<lceil>x\<rceil>)"

text \<open>
  \<^verbatim>\<open>
  def monthly_need_for_item(item):
      months = item.get("months", 1) or 1
      need = (item["target"] - item.get("current", 0)) / months
      return max(0, int(need))
  \<close>
  \<^verbatim>\<open>x or 1\<close> yields 1 when \<open>x\<close> is falsy, which for an integer is 0. The true division
  \<^verbatim>\<open>/\<close> is modelled as exact division of rationals. Python computes it as the double nearest
  to the exact quotient; for \<open>\<bar>target - current\<bar> < 2 ^ 53\<close> that double has the same
  integer part as the exact quotient, so the model covers every amount below that size.
\<close>

definition months_or_1 :: "item \<Rightarrow> int" where
  "months_or_1 it = (case months it of None \<Rightarrow> 1 | Some m \<Rightarrow> if m = 0 then 1 else m)"

definition current_or_0 :: "item \<Rightarrow> int" where
  "current_or_0 it = (case current it of None \<Rightarrow> 0 | Some c \<Rightarrow> c)"

definition monthly_need_for_item :: "item \<Rightarrow> int" where
  "monthly_need_for_item it =
     (let need = (of_int (target it - current_or_0 it) :: rat) / of_int (months_or_1 it)
      in max 0 (py_int need))"

text \<open>
  \<^verbatim>\<open>
  def allocate_to_wishlist(usable, wishlist):
      alloc = []
      remaining = usable
      sorted_items = sorted(wishlist, key=lambda x: x.get("priority", 999))
      for it in sorted_items:
          need = monthly_need_for_item(it)
          assigned = min(need, remaining)
          alloc.append({"id": it["id"], "name": it["name"],
                        "assigned": int(assigned), "need": int(need)})
          remaining -= assigned
          if remaining <= 0:
              break
      return alloc, remaining
  \<close>
  Python's \<^verbatim>\<open>sorted\<close> is a stable sort by key; it is modelled by the library's stable
  insertion sort \<open>sort_key\<close>. The loop is a recursion over the sorted list that carries
  \<^verbatim>\<open>alloc\<close> and \<^verbatim>\<open>remaining\<close>; \<^verbatim>\<open>break\<close> returns at once. On integers
  \<^verbatim>\<open>int(assigned)\<close> and \<^verbatim>\<open>int(need)\<close> change nothing.
\<close>

definition priority_key :: "item \<Rightarrow> int" where
  "priority_key x = (case priority x of None \<Rightarrow> 999 | Some p \<Rightarrow> p)"

definition sorted_items :: "item list \<Rightarrow> item list" where
  "sorted_items wl = sort_key priority_key wl"

fun alloc_loop :: "item list \<Rightarrow> alloc_rec list \<Rightarrow> int \<Rightarrow> alloc_rec list \<times> int" where
  "alloc_loop [] alloc remaining = (alloc, remaining)"
| "alloc_loop (it # rest) alloc remaining =
     (let need_v = monthly_need_for_item it;
          assigned_v = min need_v remaining;
          alloc' = alloc @ [\<lparr>alloc_id = item_id it, alloc_name = item_name it,
                             assigned = assigned_v, need = need_v\<rparr>];
          remaining' = remaining - assigned_v
      in if remaining' \<le> 0 then (alloc', remaining')
         else alloc_loop rest alloc' remaining')"

definition allocate_to_wishlist :: "int \<Rightarrow> item list \<Rightarrow> alloc_rec list \<times> int" where
  "allocate_to_wishlist usable wl = alloc_loop (sorted_items wl) [] usable"

text \<open>
  The allocation record that the loop appends for an item, given the budget left before it.
\<close>

definition record_for :: "item \<Rightarrow> int \<Rightarrow> alloc_rec" where
  "record_for it remaining =
     \<lparr>alloc_id = item_id it, alloc_name = item_name it,
      assigned = min (monthly_need_for_item it) remaining,
      need = monthly_need_for_item it\<rparr>"

text \<open>
  The budget left after the first \<open>j\<close> records of an allocation list: the starting budget
  minus everything assigned so far.
\<close>

definition remaining_after :: "int \<Rightarrow> alloc_rec list \<Rightarrow> nat \<Rightarrow> int" where
  "remaining_after usable alloc j = usable - sum_list (map assigned (take j alloc))"

text \<open>
  A wishlist item given by its id, priority and monthly need only: its target is the need,
  to be reached in one month from no savings.
\<close>

definition demo_item :: "int \<Rightarrow> int option \<Rightarrow> int \<Rightarrow> item" where
  "demo_item i p n =
     \<lparr>item_id = i, item_name = ''item'', target = n, months = Some 1,
      current = Some 0, priority = p, created = ''2024-01-01''\<rparr>"

section \<open>Handlers that change the state\<close>

text \<open>
  \<^verbatim>\<open>
  def new_item_id(data):
      existing = [it.get("id", 0) for it in data["wishlist"]]
      return max(existing)+1 if existing else 1
  \<close>
  Every item has an id, so the default of \<^verbatim>\<open>.get\<close> is not taken. \<^verbatim>\<open>max\<close> runs over the
  list from the left, keeping the larger value.
\<close>

definition new_item_id :: "app_data \<Rightarrow> int" where
  "new_item_id data =
     (case map item_id (wishlist data) of
        [] \<Rightarrow> 1
      | x # xs \<Rightarrow> fold max xs x + 1)"

text \<open>
  The "add item" form: the new item gets \<open>new_item_id\<close>, no savings yet, and is appended.
  The time stamp (\<^verbatim>\<open>datetime.now().isoformat()\<close>) is a parameter.
\<close>

definition add_item :: "string \<Rightarrow> int \<Rightarrow> int \<Rightarrow> int \<Rightarrow> string \<Rightarrow> app_data \<Rightarrow> app_data" where
  "add_item name tgt mths prio now data =
     (let new_id = new_item_id data;
          it = \<lparr>item_id = new_id, item_name = name, target = tgt, months = Some mths,
                current = Some 0, priority = Some prio, created = now\<rparr>
      in data\<lparr>wishlist := wishlist data @ [it]\<rparr>)"

text \<open>Saving the profile overwrites the four amounts.\<close>

definition save_profile :: "int \<Rightarrow> int \<Rightarrow> int \<Rightarrow> int \<Rightarrow> app_data \<Rightarrow> app_data" where
  "save_profile inc fixed saving emerg data =
     data\<lparr>profile := \<lparr>income = inc, fixed_expenses = fixed,
                        saving_invest = saving, emergency = emerg\<rparr>\<rparr>"

text \<open>
  Applying the month's allocation:
  \<^verbatim>\<open>
  id_to_assigned = {a["id"]: a["assigned"] for a in alloc}
  for it in data["wishlist"]:
      add_amt = id_to_assigned.get(it["id"], 0)
      if add_amt > 0:
          it["current"] = it.get("current", 0) + int(add_amt)
  data["transactions"].append({"ts": ..., "type": "monthly_alloc",
                               "detail": {"alloc": alloc}})
  \<close>
  The dictionary comprehension stores the records from left to right, so a later record
  with the same id replaces an earlier one.
\<close>

definition id_to_assigned :: "alloc_rec list \<Rightarrow> (int \<rightharpoonup> int)" where
  "id_to_assigned alloc = fold (\<lambda>a m. m(alloc_id a \<mapsto> assigned a)) alloc Map.empty"

definition apply_to_item :: "(int \<rightharpoonup> int) \<Rightarrow> item \<Rightarrow> item" where
  "apply_to_item m it =
     (let add_amt = (case m (item_id it) of None \<Rightarrow> 0 | Some v \<Rightarrow> v)
      in if add_amt > 0 then it\<lparr>current := Some (current_or_0 it + add_amt)\<rparr> else it)"

definition apply_monthly_allocation :: "string \<Rightarrow> alloc_rec list \<Rightarrow> app_data \<Rightarrow> app_data" where
  "apply_monthly_allocation now alloc data =
     (let m = id_to_assigned alloc
      in data\<lparr>wishlist := map (apply_to_item m) (wishlist data),
              transactions := transactions data @ [Monthly_alloc now alloc]\<rparr>)"

text \<open>
  A manual deposit:
  \<^verbatim>\<open>
  for it in data["wishlist"]:
      if it["id"] == target_id:
          it["current"] = it.get("current", 0) + int(amount)
          break
  data["transactions"].append({"ts": ..., "type": "manual_deposit",
      "amount": int(amount), "item_id": target_id, "memo": memo})
  \<close>
  Only the first item with the id is changed (\<^verbatim>\<open>break\<close>).
\<close>

fun deposit_first :: "int \<Rightarrow> int \<Rightarrow> item list \<Rightarrow> item list" where
  "deposit_first target_id amount [] = []"
| "deposit_first target_id amount (it # rest) =
     (if item_id it = target_id
      then it\<lparr>current := Some (current_or_0 it + amount)\<rparr> # rest
      else it # deposit_first target_id amount rest)"

definition record_manual_deposit :: "string \<Rightarrow> int \<Rightarrow> int \<Rightarrow> string \<Rightarrow> app_data \<Rightarrow> app_data" where
  "record_manual_deposit now target_id amount memo data =
     data\<lparr>wishlist := deposit_first target_id amount (wishlist data),
          transactions := transactions data @ [Manual_deposit now amount target_id memo]\<rparr>"

text \<open>
  One user action is one run of the page script with one button pressed. The page computes
  the preview from the current state and offers "apply" only for a non-empty preview; the
  deposit form offers only ids of the wishlist; a confirmed reset starts from the default.
\<close>

datatype event =
  Save_profile int int int int
| Add_item string int int int string
| Apply_allocation string
| Deposit string int int string
| Reset

fun handle :: "event \<Rightarrow> app_data \<Rightarrow> app_data" where
  "handle (Save_profile inc fixed saving emerg) data = save_profile inc fixed saving emerg data"
| "handle (Add_item name tgt mths prio now) data = add_item name tgt mths prio now data"
| "handle (Apply_allocation now) data =
     (let usable = calculate_usable (profile data);
          alloc = fst (allocate_to_wishlist usable (wishlist data))
      in if alloc \<noteq> [] then apply_monthly_allocation now alloc data else data)"
| "handle (Deposit now target_id amount memo) data =
     (if target_id \<in> set (map item_id (wishlist data))
      then record_manual_deposit now target_id amount memo data else data)"
| "handle Reset data = default_data"

definition unique_ids :: "app_data \<Rightarrow> bool" where
  "unique_ids data \<longleftrightarrow> distinct (map item_id (wishlist data))"

section \<open>Usable cash\<close>

text \<open>
  C3. For every profile, \<open>calculate_usable\<close> is income minus the three commitments, clamped
  below at 0: it is never negative, and it is 0 when the commitments exceed the income. The
  profile with income 2000000, fixed expenses 500000, saving 550000 and emergency 60000 has
  890000 usable.
\<close>

theorem calculate_usable_clamped:
  "calculate_usable p = max 0 (income p - (fixed_expenses p + saving_invest p + emergency p))
   \<and> 0 \<le> calculate_usable p
   \<and> (income p < fixed_expenses p + saving_invest p + emergency p \<longrightarrow> calculate_usable p = 0)
   \<and> calculate_usable \<lparr>income = 2000000, fixed_expenses = 500000,
        saving_invest = 550000, emergency = 60000\<rparr> = 890000"
  by (simp add: calculate_usable_def)

theorem calculate_usable_clamped_witness:
  "income \<lparr>income = 100, fixed_expenses = 80, saving_invest = 30, emergency = 5\<rparr>
     < fixed_expenses \<lparr>income = 100, fixed_expenses = 80, saving_invest = 30, emergency = 5\<rparr>
       + saving_invest \<lparr>income = 100, fixed_expenses = 80, saving_invest = 30, emergency = 5\<rparr>
       + emergency \<lparr>income = 100, fixed_expenses = 80, saving_invest = 30, emergency = 5\<rparr>
   \<and> calculate_usable \<lparr>income = 100, fixed_expenses = 80, saving_invest = 30, emergency = 5\<rparr> = 0"
  using calculate_usable_clamped
    [of "\<lparr>income = 100, fixed_expenses = 80, saving_invest = 30, emergency = 5\<rparr>"]
  by simp

section \<open>Monthly need\<close>






lemma monthly_need_nonneg: "0 \<le> monthly_need_for_item it"
  by (simp add: monthly_need_for_item_def)






section \<open>The allocation loop\<close>

text \<open>
  The accumulator of the loop only collects: running the loop with records already in
  \<open>alloc\<close> gives those records followed by the records of a run from the empty list.
\<close>

lemma alloc_loop_acc:
  "alloc_loop xs acc r = (acc @ fst (alloc_loop xs [] r), snd (alloc_loop xs [] r))"
proof (induction xs arbitrary: acc r)
  case Nil
  show ?case by simp
next
  case (Cons it rest)
  show ?case
    by (simp add: Let_def Cons.IH [of "acc @ _"] Cons.IH [of "[_]"])
qed

lemma alloc_loop_Cons:
  "alloc_loop (it # rest) [] r =
     (if r - assigned (record_for it r) \<le> 0
      then ([record_for it r], r - assigned (record_for it r))
      else (record_for it r # fst (alloc_loop rest [] (r - assigned (record_for it r))),
            snd (alloc_loop rest [] (r - assigned (record_for it r)))))"
  by (simp add: Let_def record_for_def alloc_loop_acc [of rest "[_]"])

declare alloc_loop.simps(2) [simp del]

lemma alloc_loop_conservation:
  "sum_list (map assigned (fst (alloc_loop xs [] r))) + snd (alloc_loop xs [] r) = r"
proof (induction xs arbitrary: r)
  case Nil
  show ?case by simp
next
  case (Cons it rest)
  from Cons.IH [of "r - assigned (record_for it r)"] show ?case
    by (simp add: alloc_loop_Cons)
qed

lemma alloc_loop_length: "length (fst (alloc_loop xs [] r)) \<le> length xs"
  by (induction xs arbitrary: r) (simp_all add: alloc_loop_Cons)

lemma alloc_loop_nonempty: "xs \<noteq> [] \<Longrightarrow> fst (alloc_loop xs [] r) \<noteq> []"
  by (cases xs) (simp_all add: alloc_loop_Cons)

lemma alloc_loop_early:
  "length (fst (alloc_loop xs [] r)) < length xs \<Longrightarrow> snd (alloc_loop xs [] r) \<le> 0"
  by (induction xs arbitrary: r) (simp_all add: alloc_loop_Cons split: if_splits)

lemma alloc_loop_nonneg: "0 \<le> r \<Longrightarrow> 0 \<le> snd (alloc_loop xs [] r)"
  by (induction xs arbitrary: r) (simp_all add: alloc_loop_Cons record_for_def)

lemma remaining_after_0: "remaining_after r alloc 0 = r"
  by (simp add: remaining_after_def)

lemma remaining_after_Cons:
  "remaining_after r (a # alloc) (Suc j) = remaining_after (r - assigned a) alloc j"
  by (simp add: remaining_after_def)

lemma remaining_after_Suc:
  "j < length alloc \<Longrightarrow>
   remaining_after r alloc (Suc j) = remaining_after r alloc j - assigned (alloc ! j)"
  by (simp add: remaining_after_def take_Suc_conv_app_nth)

lemma remaining_after_all:
  "remaining_after r (fst (alloc_loop xs [] r)) (length (fst (alloc_loop xs [] r)))
     = snd (alloc_loop xs [] r)"
  using alloc_loop_conservation [of xs r] by (simp add: remaining_after_def)

lemma alloc_loop_record:
  "j < length (fst (alloc_loop xs [] r)) \<Longrightarrow>
   fst (alloc_loop xs [] r) ! j
     = record_for (xs ! j) (remaining_after r (fst (alloc_loop xs [] r)) j)"
proof (induction xs arbitrary: r j)
  case Nil
  then show ?case by simp
next
  case (Cons it rest)
  show ?case
  proof (cases j)
    case 0
    then show ?thesis by (simp add: alloc_loop_Cons remaining_after_0)
  next
    case (Suc k)
    with Cons.prems Cons.IH [of k "r - assigned (record_for it r)"] show ?thesis
      by (simp add: alloc_loop_Cons remaining_after_Cons split: if_splits)
  qed
qed

lemma alloc_loop_positive:
  "0 < j \<Longrightarrow> j < length (fst (alloc_loop xs [] r)) \<Longrightarrow>
   0 < remaining_after r (fst (alloc_loop xs [] r)) j"
proof (induction xs arbitrary: r j)
  case Nil
  then show ?case by simp
next
  case (Cons it rest)
  from Cons.prems obtain k where j: "j = Suc k" by (cases j) auto
  show ?case
  proof (cases k)
    case 0
    with Cons.prems j show ?thesis
      by (simp add: alloc_loop_Cons remaining_after_Cons remaining_after_0 split: if_splits)
  next
    case (Suc k')
    with Cons.prems j Cons.IH [of k "r - assigned (record_for it r)"] show ?thesis
      by (simp add: alloc_loop_Cons remaining_after_Cons split: if_splits)
  qed
qed

lemma alloc_loop_ids:
  "map alloc_id (fst (alloc_loop xs [] r))
     = map item_id (take (length (fst (alloc_loop xs [] r))) xs)"
proof (rule nth_equalityI)
  show "length (map alloc_id (fst (alloc_loop xs [] r)))
      = length (map item_id (take (length (fst (alloc_loop xs [] r))) xs))"
    using alloc_loop_length [of xs r] by simp
next
  fix j assume "j < length (map alloc_id (fst (alloc_loop xs [] r)))"
  then have j: "j < length (fst (alloc_loop xs [] r))" by simp
  with alloc_loop_length [of xs r] have "j < length xs" by simp
  with j show "map alloc_id (fst (alloc_loop xs [] r)) ! j
      = map item_id (take (length (fst (alloc_loop xs [] r))) xs) ! j"
    by (simp add: alloc_loop_record record_for_def)
qed

section \<open>Sorting by priority\<close>

lemma sorted_items_sorted: "sorted (map priority_key (sorted_items wl))"
  by (simp add: sorted_items_def)

lemma sorted_items_mset: "mset (sorted_items wl) = mset wl"
  by (simp add: sorted_items_def)

lemma sorted_items_stable:
  "filter (\<lambda>x. priority_key x = k) (sorted_items wl) = filter (\<lambda>x. priority_key x = k) wl"
  by (simp add: sorted_items_def sort_key_stable)

lemma sorted_items_length: "length (sorted_items wl) = length wl"
  by (simp add: sorted_items_def)

lemma sorted_items_distinct_ids:
  "distinct (map item_id (sorted_items wl)) = distinct (map item_id wl)"
proof -
  have "mset (map item_id (sorted_items wl)) = mset (map item_id wl)"
    by (simp add: sorted_items_mset)
  then show ?thesis by (rule mset_eq_imp_distinct_iff)
qed

section \<open>Properties of the allocation\<close>

text \<open>
  C10. Budget conservation: for every budget and wishlist, the assigned amounts of the
  returned records and the returned remaining budget add up to the budget given.
\<close>

theorem allocate_conserves_budget:
  "sum_list (map assigned (fst (allocate_to_wishlist usable wl)))
     + snd (allocate_to_wishlist usable wl) = usable"
  by (simp add: allocate_to_wishlist_def alloc_loop_conservation)

text \<open>
  C5. In every record of the result, \<open>need\<close> is the monthly need of the item it stands
  for and \<open>assigned\<close> is the smaller of that need and the budget left at that point; the
  budget left drops by exactly the assigned amount, what is left after the last record is
  the remaining value returned, and for a non-negative budget that value is not negative.
\<close>

theorem allocate_assigns_min_of_need_and_remaining:
  assumes "allocate_to_wishlist usable wl = (alloc, rem)"
  shows "(\<forall>j<length alloc.
            need (alloc ! j) = monthly_need_for_item (sorted_items wl ! j)
          \<and> assigned (alloc ! j) = min (need (alloc ! j)) (remaining_after usable alloc j)
          \<and> remaining_after usable alloc (Suc j)
              = remaining_after usable alloc j - assigned (alloc ! j))
       \<and> remaining_after usable alloc 0 = usable
       \<and> remaining_after usable alloc (length alloc) = rem
       \<and> (0 \<le> usable \<longrightarrow> 0 \<le> rem)"
proof -
  from assms have alloc: "alloc = fst (alloc_loop (sorted_items wl) [] usable)"
    and rem: "rem = snd (alloc_loop (sorted_items wl) [] usable)"
    by (simp_all add: allocate_to_wishlist_def)
  have "\<forall>j<length alloc.
            need (alloc ! j) = monthly_need_for_item (sorted_items wl ! j)
          \<and> assigned (alloc ! j) = min (need (alloc ! j)) (remaining_after usable alloc j)
          \<and> remaining_after usable alloc (Suc j)
              = remaining_after usable alloc j - assigned (alloc ! j)"
  proof (intro allI impI)
    fix j assume j: "j < length alloc"
    then have "alloc ! j = record_for (sorted_items wl ! j) (remaining_after usable alloc j)"
      unfolding alloc by (rule alloc_loop_record)
    then have "need (alloc ! j) = monthly_need_for_item (sorted_items wl ! j)"
      and "assigned (alloc ! j) = min (need (alloc ! j)) (remaining_after usable alloc j)"
      by (simp_all add: record_for_def)
    with j show "need (alloc ! j) = monthly_need_for_item (sorted_items wl ! j)
          \<and> assigned (alloc ! j) = min (need (alloc ! j)) (remaining_after usable alloc j)
          \<and> remaining_after usable alloc (Suc j)
              = remaining_after usable alloc j - assigned (alloc ! j)"
      by (simp add: remaining_after_Suc)
  qed
  moreover have "remaining_after usable alloc 0 = usable"
    by (rule remaining_after_0)
  moreover have "remaining_after usable alloc (length alloc) = rem"
    unfolding alloc rem by (rule remaining_after_all)
  moreover have "0 \<le> usable \<longrightarrow> 0 \<le> rem"
    unfolding rem by (simp add: alloc_loop_nonneg)
  ultimately show ?thesis by blast
qed

theorem allocate_assigns_min_of_need_and_remaining_witness:
  "allocate_to_wishlist 120 [demo_item 1 (Some 2) 100, demo_item 2 (Some 1) 50,
                             demo_item 3 (Some 2) 80]
     = ([\<lparr>alloc_id = 2, alloc_name = ''item'', assigned = 50, need = 50\<rparr>,
         \<lparr>alloc_id = 1, alloc_name = ''item'', assigned = 70, need = 100\<rparr>], 0)
   \<and> remaining_after 120
        [\<lparr>alloc_id = 2, alloc_name = ''item'', assigned = 50, need = 50\<rparr>,
         \<lparr>alloc_id = 1, alloc_name = ''item'', assigned = 70, need = 100\<rparr>] 1 = 70
   \<and> remaining_after 120
        [\<lparr>alloc_id = 2, alloc_name = ''item'', assigned = 50, need = 50\<rparr>,
         \<lparr>alloc_id = 1, alloc_name = ''item'', assigned = 70, need = 100\<rparr>] 2 = 0"
proof -
  have run: "allocate_to_wishlist 120 [demo_item 1 (Some 2) 100, demo_item 2 (Some 1) 50,
                             demo_item 3 (Some 2) 80]
     = ([\<lparr>alloc_id = 2, alloc_name = ''item'', assigned = 50, need = 50\<rparr>,
         \<lparr>alloc_id = 1, alloc_name = ''item'', assigned = 70, need = 100\<rparr>], 0)"
    by code_simp
  from allocate_assigns_min_of_need_and_remaining [OF run] run show ?thesis
    by (simp add: remaining_after_def)
qed

text \<open>
  C1. The loop stops as soon as the budget left is used up. The records returned stand for
  an initial stretch of the items in priority order; before every record but the first the
  budget left was still positive; when fewer records than items are returned, the last
  record is the one that brought the budget to 0 (for a non-negative budget), and no later
  item has a record. For needs 100, 50, 80 with priorities 2, 1, 2 and budget 120: item 2
  gets 50, item 1 gets 70, item 3 has no record and 0 remains.
\<close>

theorem allocate_stops_when_budget_exhausted:
  assumes "allocate_to_wishlist usable wl = (alloc, rem)"
  shows "length alloc \<le> length wl
       \<and> map alloc_id alloc = map item_id (take (length alloc) (sorted_items wl))
       \<and> (wl \<noteq> [] \<longrightarrow> alloc \<noteq> [])
       \<and> (\<forall>j. 0 < j \<and> j < length alloc \<longrightarrow> 0 < remaining_after usable alloc j)
       \<and> (length alloc < length wl \<longrightarrow>
            remaining_after usable alloc (length alloc) \<le> 0 \<and> rem \<le> 0
            \<and> (0 \<le> usable \<longrightarrow> rem = 0))
       \<and> (distinct (map item_id wl) \<longrightarrow>
            (\<forall>it \<in> set (drop (length alloc) (sorted_items wl)).
               item_id it \<notin> set (map alloc_id alloc)))
       \<and> allocate_to_wishlist 120 [demo_item 1 (Some 2) 100, demo_item 2 (Some 1) 50,
                                    demo_item 3 (Some 2) 80]
            = ([\<lparr>alloc_id = 2, alloc_name = ''item'', assigned = 50, need = 50\<rparr>,
                \<lparr>alloc_id = 1, alloc_name = ''item'', assigned = 70, need = 100\<rparr>], 0)"
proof -
  let ?S = "sorted_items wl"
  from assms have alloc: "alloc = fst (alloc_loop ?S [] usable)"
    and rem: "rem = snd (alloc_loop ?S [] usable)"
    by (simp_all add: allocate_to_wishlist_def)
  have len: "length alloc \<le> length wl"
    unfolding alloc using alloc_loop_length [of ?S usable] by (simp add: sorted_items_length)
  have ids: "map alloc_id alloc = map item_id (take (length alloc) ?S)"
    unfolding alloc by (rule alloc_loop_ids)
  have nonempty: "wl \<noteq> [] \<longrightarrow> alloc \<noteq> []"
  proof
    assume "wl \<noteq> []"
    then have "?S \<noteq> []" using sorted_items_length [of wl] by (cases ?S) auto
    then show "alloc \<noteq> []" unfolding alloc by (rule alloc_loop_nonempty)
  qed
  have positive: "\<forall>j. 0 < j \<and> j < length alloc \<longrightarrow> 0 < remaining_after usable alloc j"
    unfolding alloc by (simp add: alloc_loop_positive)
  have last: "remaining_after usable alloc (length alloc) = rem"
    unfolding alloc rem by (rule remaining_after_all)
  have early: "length alloc < length wl \<longrightarrow>
      remaining_after usable alloc (length alloc) \<le> 0 \<and> rem \<le> 0 \<and> (0 \<le> usable \<longrightarrow> rem = 0)"
  proof
    assume "length alloc < length wl"
    then have "length (fst (alloc_loop ?S [] usable)) < length ?S"
      by (simp add: alloc sorted_items_length)
    then have "rem \<le> 0" unfolding rem by (rule alloc_loop_early)
    moreover have "0 \<le> usable \<longrightarrow> 0 \<le> rem"
      unfolding rem by (simp add: alloc_loop_nonneg)
    ultimately show "remaining_after usable alloc (length alloc) \<le> 0 \<and> rem \<le> 0
        \<and> (0 \<le> usable \<longrightarrow> rem = 0)"
      using last by auto
  qed
  have absent: "distinct (map item_id wl) \<longrightarrow>
      (\<forall>it \<in> set (drop (length alloc) ?S). item_id it \<notin> set (map alloc_id alloc))"
  proof (intro impI ballI)
    fix it
    assume "distinct (map item_id wl)" and it: "it \<in> set (drop (length alloc) ?S)"
    then have "distinct (map item_id ?S)" by (simp add: sorted_items_distinct_ids)
    then have "distinct (map item_id (take (length alloc) ?S) @ map item_id (drop (length alloc) ?S))"
      by (simp only: map_append [symmetric] append_take_drop_id)
    then have "set (map item_id (take (length alloc) ?S))
        \<inter> set (map item_id (drop (length alloc) ?S)) = {}"
      by (simp only: distinct_append)
    moreover from it have "item_id it \<in> set (map item_id (drop (length alloc) ?S))"
      by simp
    ultimately show "item_id it \<notin> set (map alloc_id alloc)"
      unfolding ids by blast
  qed
  have example: "allocate_to_wishlist 120 [demo_item 1 (Some 2) 100, demo_item 2 (Some 1) 50,
                                    demo_item 3 (Some 2) 80]
            = ([\<lparr>alloc_id = 2, alloc_name = ''item'', assigned = 50, need = 50\<rparr>,
                \<lparr>alloc_id = 1, alloc_name = ''item'', assigned = 70, need = 100\<rparr>], 0)"
    by code_simp
  from len ids nonempty positive early absent example show ?thesis by blast
qed

theorem allocate_stops_when_budget_exhausted_witness:
  "allocate_to_wishlist 50 [demo_item 1 (Some 2) 100, demo_item 2 (Some 1) 20,
                            demo_item 3 (Some 2) 80]
     = ([\<lparr>alloc_id = 2, alloc_name = ''item'', assigned = 20, need = 20\<rparr>,
         \<lparr>alloc_id = 1, alloc_name = ''item'', assigned = 30, need = 100\<rparr>], 0)
   \<and> 0 < remaining_after 50
        [\<lparr>alloc_id = 2, alloc_name = ''item'', assigned = 20, need = 20\<rparr>,
         \<lparr>alloc_id = 1, alloc_name = ''item'', assigned = 30, need = 100\<rparr>] 1
   \<and> distinct (map item_id [demo_item 1 (Some 2) 100, demo_item 2 (Some 1) 20,
                            demo_item 3 (Some 2) 80])
   \<and> demo_item 3 (Some 2) 80 \<in> set (drop 2 (sorted_items
        [demo_item 1 (Some 2) 100, demo_item 2 (Some 1) 20, demo_item 3 (Some 2) 80]))
   \<and> item_id (demo_item 3 (Some 2) 80) \<notin> {2, 1}"
proof -
  have run: "allocate_to_wishlist 50 [demo_item 1 (Some 2) 100, demo_item 2 (Some 1) 20,
                            demo_item 3 (Some 2) 80]
     = ([\<lparr>alloc_id = 2, alloc_name = ''item'', assigned = 20, need = 20\<rparr>,
         \<lparr>alloc_id = 1, alloc_name = ''item'', assigned = 30, need = 100\<rparr>], 0)"
    by code_simp
  have srt: "sorted_items [demo_item 1 (Some 2) 100, demo_item 2 (Some 1) 20, demo_item 3 (Some 2) 80]
    = [demo_item 2 (Some 1) 20, demo_item 1 (Some 2) 100, demo_item 3 (Some 2) 80]"
    by (simp add: sorted_items_def priority_key_def demo_item_def)
  from allocate_stops_when_budget_exhausted [OF run] run srt show ?thesis
    by (simp add: remaining_after_def demo_item_def)
qed

text \<open>
  C9. With a budget of 0 and a non-empty wishlist the result is not empty: it is the one
  record of the first item in priority order, with nothing assigned, and 0 remains. The
  loop tests the budget only after it has appended a record.
\<close>

theorem allocate_zero_budget_one_record:
  assumes "wl \<noteq> []"
  shows "allocate_to_wishlist 0 wl
     = ([\<lparr>alloc_id = item_id (hd (sorted_items wl)),
          alloc_name = item_name (hd (sorted_items wl)),
          assigned = 0,
          need = monthly_need_for_item (hd (sorted_items wl))\<rparr>], 0)"
proof -
  from assms obtain it rest where S: "sorted_items wl = it # rest"
    using sorted_items_length [of wl] by (cases "sorted_items wl") auto
  have "min (monthly_need_for_item it) 0 = 0"
    using monthly_need_nonneg [of it] by simp
  then show ?thesis
    by (simp add: allocate_to_wishlist_def S alloc_loop_Cons record_for_def)
qed

theorem allocate_zero_budget_one_record_witness:
  "[demo_item 1 (Some 2) 100, demo_item 2 (Some 1) 50] \<noteq> []
   \<and> allocate_to_wishlist 0 [demo_item 1 (Some 2) 100, demo_item 2 (Some 1) 50]
       = ([\<lparr>alloc_id = 2, alloc_name = ''item'', assigned = 0, need = 50\<rparr>], 0)"
proof -
  have ne: "[demo_item 1 (Some 2) 100, demo_item 2 (Some 1) 50] \<noteq> []" by simp
  have srt: "sorted_items [demo_item 1 (Some 2) 100, demo_item 2 (Some 1) 50]
    = [demo_item 2 (Some 1) 50, demo_item 1 (Some 2) 100]"
    by (simp add: sorted_items_def priority_key_def demo_item_def)
  have nd: "monthly_need_for_item (demo_item 2 (Some 1) 50) = 50"
    by code_simp
  from allocate_zero_budget_one_record [OF ne] srt nd show ?thesis
    by (simp add: demo_item_def)
qed

text \<open>
  C4. Items are processed in ascending order of priority, an item without a priority
  counting as priority 999: the processing order is a rearrangement of the wishlist whose
  priorities ascend and in which items of equal priority keep their wishlist order, and the
  \<open>j\<close>-th record returned is the record of the \<open>j\<close>-th item of that order. With a budget of
  70 and two items of priority 2, the one that comes first in the wishlist is funded; an
  item without priority comes after an item of priority 5.
\<close>

theorem allocate_in_stable_priority_order:
  assumes "allocate_to_wishlist usable wl = (alloc, rem)"
  shows "sorted (map priority_key (sorted_items wl))
       \<and> mset (sorted_items wl) = mset wl
       \<and> (\<forall>k. filter (\<lambda>x. priority_key x = k) (sorted_items wl)
                = filter (\<lambda>x. priority_key x = k) wl)
       \<and> (\<forall>x \<in> set wl. (priority x = None \<longrightarrow> priority_key x = 999)
                        \<and> (\<forall>p. priority x = Some p \<longrightarrow> priority_key x = p))
       \<and> (\<forall>j<length alloc.
             alloc ! j = record_for (sorted_items wl ! j) (remaining_after usable alloc j))
       \<and> allocate_to_wishlist 70 [demo_item 1 (Some 2) 100, demo_item 3 (Some 2) 80]
            = ([\<lparr>alloc_id = 1, alloc_name = ''item'', assigned = 70, need = 100\<rparr>], 0)
       \<and> allocate_to_wishlist 70 [demo_item 3 (Some 2) 80, demo_item 1 (Some 2) 100]
            = ([\<lparr>alloc_id = 3, alloc_name = ''item'', assigned = 70, need = 80\<rparr>], 0)
       \<and> allocate_to_wishlist 70 [demo_item 4 None 60, demo_item 5 (Some 5) 40]
            = ([\<lparr>alloc_id = 5, alloc_name = ''item'', assigned = 40, need = 40\<rparr>,
                \<lparr>alloc_id = 4, alloc_name = ''item'', assigned = 30, need = 60\<rparr>], 0)"
proof -
  from assms have alloc: "alloc = fst (alloc_loop (sorted_items wl) [] usable)"
    by (simp add: allocate_to_wishlist_def)
  have key: "\<forall>x \<in> set wl. (priority x = None \<longrightarrow> priority_key x = 999)
                        \<and> (\<forall>p. priority x = Some p \<longrightarrow> priority_key x = p)"
    by (simp add: priority_key_def)
  have records: "\<forall>j<length alloc.
      alloc ! j = record_for (sorted_items wl ! j) (remaining_after usable alloc j)"
    unfolding alloc by (simp add: alloc_loop_record)
  have ex1: "allocate_to_wishlist 70 [demo_item 1 (Some 2) 100, demo_item 3 (Some 2) 80]
            = ([\<lparr>alloc_id = 1, alloc_name = ''item'', assigned = 70, need = 100\<rparr>], 0)"
    by code_simp
  have ex2: "allocate_to_wishlist 70 [demo_item 3 (Some 2) 80, demo_item 1 (Some 2) 100]
            = ([\<lparr>alloc_id = 3, alloc_name = ''item'', assigned = 70, need = 80\<rparr>], 0)"
    by code_simp
  have ex3: "allocate_to_wishlist 70 [demo_item 4 None 60, demo_item 5 (Some 5) 40]
            = ([\<lparr>alloc_id = 5, alloc_name = ''item'', assigned = 40, need = 40\<rparr>,
                \<lparr>alloc_id = 4, alloc_name = ''item'', assigned = 30, need = 60\<rparr>], 0)"
    by code_simp
  from sorted_items_sorted [of wl] sorted_items_mset [of wl] sorted_items_stable [of _ wl]
    key records ex1 ex2 ex3
  show ?thesis by blast
qed

theorem allocate_in_stable_priority_order_witness:
  "allocate_to_wishlist 200 [demo_item 4 None 60, demo_item 1 (Some 2) 100,
                             demo_item 3 (Some 2) 80]
     = ([\<lparr>alloc_id = 1, alloc_name = ''item'', assigned = 100, need = 100\<rparr>,
         \<lparr>alloc_id = 3, alloc_name = ''item'', assigned = 80, need = 80\<rparr>,
         \<lparr>alloc_id = 4, alloc_name = ''item'', assigned = 20, need = 60\<rparr>], 0)
   \<and> sorted_items [demo_item 4 None 60, demo_item 1 (Some 2) 100, demo_item 3 (Some 2) 80]
       = [demo_item 1 (Some 2) 100, demo_item 3 (Some 2) 80, demo_item 4 None 60]
   \<and> priority (demo_item 4 None 60) = None
   \<and> priority_key (demo_item 4 None 60) = 999
   \<and> priority (demo_item 1 (Some 2) 100) = Some 2
   \<and> priority_key (demo_item 1 (Some 2) 100) = 2
   \<and> record_for (demo_item 3 (Some 2) 80) 100
       = \<lparr>alloc_id = 3, alloc_name = ''item'', assigned = 80, need = 80\<rparr>"
proof -
  have run: "allocate_to_wishlist 200 [demo_item 4 None 60, demo_item 1 (Some 2) 100,
                             demo_item 3 (Some 2) 80]
     = ([\<lparr>alloc_id = 1, alloc_name = ''item'', assigned = 100, need = 100\<rparr>,
         \<lparr>alloc_id = 3, alloc_name = ''item'', assigned = 80, need = 80\<rparr>,
         \<lparr>alloc_id = 4, alloc_name = ''item'', assigned = 20, need = 60\<rparr>], 0)"
    by code_simp
  have srt: "sorted_items [demo_item 4 None 60, demo_item 1 (Some 2) 100, demo_item 3 (Some 2) 80]
       = [demo_item 1 (Some 2) 100, demo_item 3 (Some 2) 80, demo_item 4 None 60]"
    by (simp add: sorted_items_def priority_key_def demo_item_def)
  have rec: "record_for (demo_item 3 (Some 2) 80) 100
       = \<lparr>alloc_id = 3, alloc_name = ''item'', assigned = 80, need = 80\<rparr>"
    by code_simp
  from allocate_in_stable_priority_order [OF run] run srt rec show ?thesis
    by (simp add: demo_item_def priority_key_def)
qed

section \<open>Item ids\<close>

lemma new_item_id_Max:
  "wishlist data \<noteq> [] \<Longrightarrow> new_item_id data = Max (set (map item_id (wishlist data))) + 1"
  by (cases "wishlist data") (simp_all add: new_item_id_def Max.set_eq_fold del: set_simps)

lemma new_item_id_empty: "wishlist data = [] \<Longrightarrow> new_item_id data = 1"
  by (simp add: new_item_id_def)

lemma new_item_id_above: "it \<in> set (wishlist data) \<Longrightarrow> item_id it < new_item_id data"
proof -
  assume it: "it \<in> set (wishlist data)"
  then have ne: "wishlist data \<noteq> []" by auto
  from it have "item_id it \<le> Max (set (map item_id (wishlist data)))"
    by (intro Max_ge) auto
  with new_item_id_Max [OF ne] show ?thesis by simp
qed

lemma item_id_apply_to_item: "item_id (apply_to_item m it) = item_id it"
  by (simp add: apply_to_item_def Let_def)

lemma ids_deposit_first:
  "map item_id (deposit_first target_id amount wl) = map item_id wl"
  by (induction wl) simp_all

lemma unique_ids_save_profile:
  "unique_ids data \<Longrightarrow> unique_ids (save_profile inc fixed saving emerg data)"
  by (simp add: unique_ids_def save_profile_def)

lemma unique_ids_add_item:
  assumes "unique_ids data"
  shows "unique_ids (add_item name tgt mths prio now data)"
proof -
  have "new_item_id data \<notin> set (map item_id (wishlist data))"
    using new_item_id_above [of _ data] by fastforce
  with assms show ?thesis
    by (simp add: unique_ids_def add_item_def Let_def)
qed

lemma unique_ids_apply:
  "unique_ids data \<Longrightarrow> unique_ids (apply_monthly_allocation now alloc data)"
  by (simp add: unique_ids_def apply_monthly_allocation_def Let_def o_def item_id_apply_to_item)

lemma unique_ids_deposit:
  "unique_ids data \<Longrightarrow> unique_ids (record_manual_deposit now target_id amount memo data)"
  by (simp add: unique_ids_def record_manual_deposit_def ids_deposit_first)

lemma unique_ids_default: "unique_ids default_data"
  by (simp add: unique_ids_def default_data_def)

lemma unique_ids_handle: "unique_ids data \<Longrightarrow> unique_ids (handle e data)"
proof (cases e)
  case (Save_profile inc fixed saving emerg)
  assume "unique_ids data"
  with Save_profile show ?thesis by (simp add: unique_ids_save_profile)
next
  case (Add_item name tgt mths prio now)
  assume "unique_ids data"
  with Add_item show ?thesis by (simp add: unique_ids_add_item)
next
  case (Apply_allocation now)
  assume "unique_ids data"
  with Apply_allocation show ?thesis by (simp add: Let_def unique_ids_apply)
next
  case (Deposit now target_id amount memo)
  assume "unique_ids data"
  with Deposit show ?thesis by (simp add: unique_ids_deposit)
next
  case Reset
  then show ?thesis by (simp add: unique_ids_default)
qed

lemma unique_ids_run: "unique_ids data \<Longrightarrow> unique_ids (fold handle es data)"
  by (induction es arbitrary: data) (simp_all add: unique_ids_handle)

text \<open>
  C8. A new item's id is 1 for an empty wishlist and otherwise one more than the largest id
  in the wishlist, so it is larger than every id in use. No handler removes an item or
  changes an id, so every user action keeps the ids of the wishlist distinct, and they are
  distinct in every state reached from the default state.
\<close>

theorem new_item_id_keeps_ids_unique:
  "(wishlist data = [] \<longrightarrow> new_item_id data = 1)
   \<and> (wishlist data \<noteq> [] \<longrightarrow>
        new_item_id data = Max (set (map item_id (wishlist data))) + 1)
   \<and> (\<forall>it \<in> set (wishlist data). item_id it < new_item_id data)
   \<and> map item_id (wishlist (add_item name tgt mths prio now data))
        = map item_id (wishlist data) @ [new_item_id data]
   \<and> (unique_ids data \<longrightarrow> unique_ids (handle e data))
   \<and> unique_ids (fold handle es default_data)"
proof (intro conjI)
  show "wishlist data = [] \<longrightarrow> new_item_id data = 1"
    by (simp add: new_item_id_empty)
  show "wishlist data \<noteq> [] \<longrightarrow> new_item_id data = Max (set (map item_id (wishlist data))) + 1"
    by (rule impI) (rule new_item_id_Max)
  show "\<forall>it \<in> set (wishlist data). item_id it < new_item_id data"
    by (simp add: new_item_id_above)
  show "map item_id (wishlist (add_item name tgt mths prio now data))
        = map item_id (wishlist data) @ [new_item_id data]"
    by (simp add: add_item_def Let_def)
  show "unique_ids data \<longrightarrow> unique_ids (handle e data)"
    by (simp add: unique_ids_handle)
  show "unique_ids (fold handle es default_data)"
    by (simp add: unique_ids_run unique_ids_default)
qed

theorem new_item_id_keeps_ids_unique_witness:
  "wishlist default_data = []
   \<and> new_item_id default_data = 1
   \<and> wishlist (default_data\<lparr>wishlist := [demo_item 1 (Some 2) 100, demo_item 2 (Some 1) 50]\<rparr>) \<noteq> []
   \<and> new_item_id (default_data\<lparr>wishlist := [demo_item 1 (Some 2) 100, demo_item 2 (Some 1) 50]\<rparr>)
       = Max {1, 2} + 1
   \<and> unique_ids (default_data\<lparr>wishlist := [demo_item 1 (Some 2) 100, demo_item 2 (Some 1) 50]\<rparr>)
   \<and> unique_ids (handle (Add_item ''desk'' 300 2 1 ''2024-02-01'')
        (default_data\<lparr>wishlist := [demo_item 1 (Some 2) 100, demo_item 2 (Some 1) 50]\<rparr>))
   \<and> map item_id (wishlist (handle (Add_item ''desk'' 300 2 1 ''2024-02-01'')
        (default_data\<lparr>wishlist := [demo_item 1 (Some 2) 100, demo_item 2 (Some 1) 50]\<rparr>)))
       = [1, 2, 3]"
proof -
  let ?d = "default_data\<lparr>wishlist := [demo_item 1 (Some 2) 100, demo_item 2 (Some 1) 50]\<rparr>"
  let ?e = "Add_item ''desk'' 300 2 1 ''2024-02-01''"
  have empty: "wishlist default_data = []"
    by (simp add: default_data_def)
  have ne: "wishlist ?d \<noteq> []" by simp
  have u: "unique_ids ?d" by (simp add: unique_ids_def demo_item_def)
  have ids: "set (map item_id (wishlist ?d)) = {1, 2}" by (simp add: demo_item_def)
  note first = new_item_id_keeps_ids_unique [of default_data "''desk''" 300 2 1 "''2024-02-01''" ?e "[]"]
  note later = new_item_id_keeps_ids_unique [of ?d "''desk''" 300 2 1 "''2024-02-01''" ?e "[]"]
  from first empty have one: "new_item_id default_data = 1" by blast
  from later ne have "new_item_id ?d = Max (set (map item_id (wishlist ?d))) + 1" by blast
  then have nid: "new_item_id ?d = Max {1, 2} + 1" by (simp only: ids)
  from later u have u': "unique_ids (handle ?e ?d)" by blast
  from later have "map item_id (wishlist (add_item ''desk'' 300 2 1 ''2024-02-01'' ?d))
        = map item_id (wishlist ?d) @ [new_item_id ?d]" by blast
  with nid have ids': "map item_id (wishlist (handle ?e ?d)) = [1, 2, 3]"
    by (simp add: demo_item_def)
  from empty one ne nid u u' ids' show ?thesis by blast
qed

section \<open>The wishlist ledger\<close>

lemma id_to_assigned_snoc:
  "id_to_assigned (alloc @ [a]) = (id_to_assigned alloc)(alloc_id a \<mapsto> assigned a)"
  by (simp add: id_to_assigned_def)

lemma id_to_assigned_absent:
  "k \<notin> set (map alloc_id alloc) \<Longrightarrow> id_to_assigned alloc k = None"
proof (induction alloc rule: rev_induct)
  case Nil
  show ?case by (simp add: id_to_assigned_def)
next
  case (snoc a alloc)
  then show ?case by (simp add: id_to_assigned_snoc)
qed

lemma id_to_assigned_distinct:
  "distinct (map alloc_id alloc) \<Longrightarrow> a \<in> set alloc \<Longrightarrow>
   id_to_assigned alloc (alloc_id a) = Some (assigned a)"
proof (induction alloc rule: rev_induct)
  case Nil
  then show ?case by simp
next
  case (snoc b alloc)
  show ?case
  proof (cases "a = b")
    case True
    then show ?thesis by (simp add: id_to_assigned_snoc)
  next
    case False
    with snoc.prems have a: "a \<in> set alloc" and "alloc_id b \<notin> set (map alloc_id alloc)"
      and "distinct (map alloc_id alloc)" by auto
    then have "alloc_id a \<noteq> alloc_id b" by (metis imageI set_map)
    with snoc.IH a \<open>distinct (map alloc_id alloc)\<close> show ?thesis
      by (simp add: id_to_assigned_snoc)
  qed
qed

text \<open>The amount that one application adds to an item: the positive amount stored for its id.\<close>

lemma apply_to_item_current:
  "current_or_0 (apply_to_item m it)
     = current_or_0 it + max 0 (case m (item_id it) of None \<Rightarrow> 0 | Some v \<Rightarrow> v)"
  by (simp add: apply_to_item_def current_or_0_def Let_def)

lemma apply_to_item_twice:
  "current_or_0 (apply_to_item m (apply_to_item m it)) - current_or_0 it
     = 2 * (current_or_0 (apply_to_item m it) - current_or_0 it)"
  by (simp add: apply_to_item_current item_id_apply_to_item)

lemma apply_to_item_match:
  "m (item_id it) = Some v \<Longrightarrow>
   apply_to_item m it = (if 0 < v then it\<lparr>current := Some (current_or_0 it + v)\<rparr> else it)"
  by (simp add: apply_to_item_def)

lemma apply_to_item_no_match: "m (item_id it) = None \<Longrightarrow> apply_to_item m it = it"
  by (simp add: apply_to_item_def)

text \<open>
  C6. Applying an allocation result (one record per id) adds, for every record with a
  positive assigned amount, that amount to \<open>current\<close> of the wishlist item with the
  record's id; items whose id is not in the result are untouched; one \<open>monthly_alloc\<close>
  transaction with the result is appended. Applying the same result a second time adds the
  same amounts again, so the growth of each \<open>current\<close> is doubled, and a second transaction
  is logged: the operation is not idempotent.
\<close>

theorem apply_monthly_allocation_adds_assigned:
  assumes "distinct (map alloc_id alloc)"
    and "data' = apply_monthly_allocation now alloc data"
    and "data'' = apply_monthly_allocation now alloc data'"
  shows "length (wishlist data') = length (wishlist data)
       \<and> (\<forall>i<length (wishlist data). \<forall>a \<in> set alloc.
             alloc_id a = item_id (wishlist data ! i) \<and> 0 < assigned a \<longrightarrow>
             wishlist data' ! i = (wishlist data ! i)
               \<lparr>current := Some (current_or_0 (wishlist data ! i) + assigned a)\<rparr>)
       \<and> (\<forall>i<length (wishlist data).
             item_id (wishlist data ! i) \<notin> set (map alloc_id alloc) \<longrightarrow>
             wishlist data' ! i = wishlist data ! i)
       \<and> transactions data' = transactions data @ [Monthly_alloc now alloc]
       \<and> profile data' = profile data
       \<and> length (wishlist data'') = length (wishlist data)
       \<and> (\<forall>i<length (wishlist data).
             current_or_0 (wishlist data'' ! i) - current_or_0 (wishlist data ! i)
               = 2 * (current_or_0 (wishlist data' ! i) - current_or_0 (wishlist data ! i)))
       \<and> transactions data''
           = transactions data @ [Monthly_alloc now alloc, Monthly_alloc now alloc]
       \<and> data'' \<noteq> data'"
proof -
  let ?m = "id_to_assigned alloc"
  have wl': "wishlist data' = map (apply_to_item ?m) (wishlist data)"
    and tx': "transactions data' = transactions data @ [Monthly_alloc now alloc]"
    and pr': "profile data' = profile data"
    by (simp_all add: assms(2) apply_monthly_allocation_def Let_def)
  have wl'': "wishlist data'' = map (apply_to_item ?m) (wishlist data')"
    and tx'': "transactions data'' = transactions data' @ [Monthly_alloc now alloc]"
    by (simp_all add: assms(3) apply_monthly_allocation_def Let_def)
  have added: "\<forall>i<length (wishlist data). \<forall>a \<in> set alloc.
             alloc_id a = item_id (wishlist data ! i) \<and> 0 < assigned a \<longrightarrow>
             wishlist data' ! i = (wishlist data ! i)
               \<lparr>current := Some (current_or_0 (wishlist data ! i) + assigned a)\<rparr>"
  proof (intro allI impI ballI)
    fix i a
    assume i: "i < length (wishlist data)" and a: "a \<in> set alloc"
      and match: "alloc_id a = item_id (wishlist data ! i) \<and> 0 < assigned a"
    from assms(1) a have "?m (alloc_id a) = Some (assigned a)"
      by (rule id_to_assigned_distinct)
    with match have "?m (item_id (wishlist data ! i)) = Some (assigned a)" by simp
    with match i show "wishlist data' ! i = (wishlist data ! i)
               \<lparr>current := Some (current_or_0 (wishlist data ! i) + assigned a)\<rparr>"
      by (simp add: wl' apply_to_item_match)
  qed
  have untouched: "\<forall>i<length (wishlist data).
             item_id (wishlist data ! i) \<notin> set (map alloc_id alloc) \<longrightarrow>
             wishlist data' ! i = wishlist data ! i"
    by (simp add: wl' id_to_assigned_absent apply_to_item_no_match)
  have doubled: "\<forall>i<length (wishlist data).
             current_or_0 (wishlist data'' ! i) - current_or_0 (wishlist data ! i)
               = 2 * (current_or_0 (wishlist data' ! i) - current_or_0 (wishlist data ! i))"
    by (simp add: wl'' wl' apply_to_item_twice)
  have two: "transactions data''
           = transactions data @ [Monthly_alloc now alloc, Monthly_alloc now alloc]"
    by (simp add: tx'' tx')
  have "length (transactions data'') \<noteq> length (transactions data')"
    by (simp add: tx'')
  then have differ: "data'' \<noteq> data'" by auto
  have "length (wishlist data') = length (wishlist data)"
    and "length (wishlist data'') = length (wishlist data)"
    by (simp_all add: wl'' wl')
  with added untouched tx' pr' doubled two differ show ?thesis by blast
qed

text \<open>
  The result of \<open>allocate_to_wishlist\<close> for a wishlist with distinct ids has one record per
  id, so it meets the assumption on the allocation result made above.
\<close>

lemma allocate_ids_distinct:
  assumes "distinct (map item_id wl)"
  shows "distinct (map alloc_id (fst (allocate_to_wishlist usable wl)))"
proof -
  from assms have "distinct (map item_id (sorted_items wl))"
    by (simp add: sorted_items_distinct_ids)
  then have "distinct (take (length (fst (alloc_loop (sorted_items wl) [] usable)))
      (map item_id (sorted_items wl)))"
    by (rule distinct_take)
  then show ?thesis
    by (simp add: allocate_to_wishlist_def alloc_loop_ids take_map)
qed

theorem apply_monthly_allocation_adds_assigned_witness:
  "fst (allocate_to_wishlist 120 [demo_item 1 (Some 2) 100, demo_item 2 (Some 1) 50,
                                  demo_item 3 (Some 2) 80])
     = [\<lparr>alloc_id = 2, alloc_name = ''item'', assigned = 50, need = 50\<rparr>,
        \<lparr>alloc_id = 1, alloc_name = ''item'', assigned = 70, need = 100\<rparr>]
   \<and> distinct (map alloc_id
        [\<lparr>alloc_id = 2, alloc_name = ''item'', assigned = 50, need = 50\<rparr>,
         \<lparr>alloc_id = 1, alloc_name = ''item'', assigned = 70, need = 100\<rparr>])
   \<and> map current (wishlist (apply_monthly_allocation ''2024-03-01''
        [\<lparr>alloc_id = 2, alloc_name = ''item'', assigned = 50, need = 50\<rparr>,
         \<lparr>alloc_id = 1, alloc_name = ''item'', assigned = 70, need = 100\<rparr>]
        (default_data\<lparr>wishlist := [demo_item 1 (Some 2) 100, demo_item 2 (Some 1) 50,
                                     demo_item 3 (Some 2) 80]\<rparr>)))
       = [Some 70, Some 50, Some 0]
   \<and> map current (wishlist (apply_monthly_allocation ''2024-03-01''
        [\<lparr>alloc_id = 2, alloc_name = ''item'', assigned = 50, need = 50\<rparr>,
         \<lparr>alloc_id = 1, alloc_name = ''item'', assigned = 70, need = 100\<rparr>]
        (apply_monthly_allocation ''2024-03-01''
          [\<lparr>alloc_id = 2, alloc_name = ''item'', assigned = 50, need = 50\<rparr>,
           \<lparr>alloc_id = 1, alloc_name = ''item'', assigned = 70, need = 100\<rparr>]
          (default_data\<lparr>wishlist := [demo_item 1 (Some 2) 100, demo_item 2 (Some 1) 50,
                                       demo_item 3 (Some 2) 80]\<rparr>))))
       = [Some 140, Some 100, Some 0]
   \<and> length (transactions (apply_monthly_allocation ''2024-03-01''
        [\<lparr>alloc_id = 2, alloc_name = ''item'', assigned = 50, need = 50\<rparr>,
         \<lparr>alloc_id = 1, alloc_name = ''item'', assigned = 70, need = 100\<rparr>]
        (default_data\<lparr>wishlist := [demo_item 1 (Some 2) 100, demo_item 2 (Some 1) 50,
                                     demo_item 3 (Some 2) 80]\<rparr>))) = 1"
proof -
  let ?wl = "[demo_item 1 (Some 2) 100, demo_item 2 (Some 1) 50, demo_item 3 (Some 2) 80]"
  let ?A = "[\<lparr>alloc_id = 2, alloc_name = ''item'', assigned = 50, need = 50\<rparr>,
             \<lparr>alloc_id = 1, alloc_name = ''item'', assigned = 70, need = 100\<rparr>]"
  let ?d = "default_data\<lparr>wishlist := ?wl\<rparr>"
  let ?d' = "apply_monthly_allocation ''2024-03-01'' ?A ?d"
  let ?d'' = "apply_monthly_allocation ''2024-03-01'' ?A ?d'"
  have run: "fst (allocate_to_wishlist 120 ?wl) = ?A"
    by code_simp
  have dist: "distinct (map alloc_id ?A)" by simp
  note applied = apply_monthly_allocation_adds_assigned [OF dist refl refl, of "''2024-03-01''" ?d]
  have m: "id_to_assigned ?A = [2 \<mapsto> 50, 1 \<mapsto> 70]"
    by (simp add: id_to_assigned_def)
  have once: "map current (wishlist ?d') = [Some 70, Some 50, Some 0]"
    using applied
    by (simp add: apply_monthly_allocation_def m apply_to_item_def demo_item_def
        current_or_0_def)
  have twice: "map current (wishlist ?d'') = [Some 140, Some 100, Some 0]"
    using applied
    by (simp add: apply_monthly_allocation_def m apply_to_item_def demo_item_def
        current_or_0_def)
  from applied have "transactions ?d' = transactions ?d @ [Monthly_alloc ''2024-03-01'' ?A]"
    by blast
  then have tx: "length (transactions ?d') = 1"
    by (simp add: default_data_def)
  from run dist once twice tx show ?thesis by blast
qed





end
